theory Spec2Isabelle
  imports Main "HOL-Library.Monad_Syntax"
begin

section \<open>Go values used by instancelogger.go\<close>

text \<open>
  A Go \<^verbatim>\<open>error\<close> is an interface value. The only things \<^verbatim>\<open>instancelogger.go\<close> does
  with one are: print it (\<^verbatim>\<open>%v\<close>, \<^verbatim>\<open>%+v\<close>), compare it with \<^verbatim>\<open>nil\<close>, and assert
  that its dynamic type implements \<^verbatim>\<open>net.Error\<close> in order to call \<^verbatim>\<open>Timeout()\<close>.
  So an error is its message, together with the answer of \<^verbatim>\<open>Timeout()\<close> when the
  dynamic type implements \<^verbatim>\<open>net.Error\<close>. A nil error is \<open>None\<close> of \<open>go_error option\<close>.
\<close>

datatype go_error =
    NetError string bool  \<comment> \<open>implements \<^verbatim>\<open>net.Error\<close>: message, result of \<^verbatim>\<open>Timeout()\<close>\<close>
  | PlainError string     \<comment> \<open>does not implement \<^verbatim>\<open>net.Error\<close>: message\<close>

fun error_string :: "go_error \<Rightarrow> string" where
  "error_string (NetError m t) = m"
| "error_string (PlainError m) = m"

fun implements_net_Error :: "go_error \<Rightarrow> bool" where
  "implements_net_Error (NetError m t) = True"
| "implements_net_Error (PlainError m) = False"

datatype go_panic =
    NilPointerDereference     \<comment> \<open>\<^verbatim>\<open>*p\<close> with \<^verbatim>\<open>p == nil\<close>\<close>
  | InterfaceConversion       \<comment> \<open>\<^verbatim>\<open>x.(T)\<close> without \<^verbatim>\<open>, ok\<close> on a value that is not a \<^verbatim>\<open>T\<close>\<close>
  | NegativeWaitGroupCounter  \<comment> \<open>\<^verbatim>\<open>sync.WaitGroup.Done\<close> below zero\<close>

text \<open>How a call ends: it returns, it panics, or the process exits (\<^verbatim>\<open>os.Exit\<close>).\<close>

datatype 'a outcome = Returned 'a | Panicked go_panic | Exited int

text \<open>
  \<^verbatim>\<open>perr.(net.Error).Timeout()\<close>: the type assertion has no \<^verbatim>\<open>, ok\<close> form, so it panics
  on an error whose dynamic type does not implement \<^verbatim>\<open>net.Error\<close>.
\<close>

fun net_Error_Timeout :: "go_error \<Rightarrow> go_panic + bool" where
  "net_Error_Timeout (NetError m t) = Inr t"
| "net_Error_Timeout (PlainError m) = Inl InterfaceConversion"

text \<open>
  \<^verbatim>\<open>%v\<close> and \<^verbatim>\<open>%+v\<close> of an error value print \<^verbatim>\<open>Error()\<close>, and \<^verbatim>\<open><nil>\<close> for a nil
  interface (error types with a \<^verbatim>\<open>Format\<close> method of their own are outside the model).
\<close>

fun fmt_v :: "go_error option \<Rightarrow> string" where
  "fmt_v None = ''<nil>''"
| "fmt_v (Some e) = error_string e"

subsection \<open>Handles of the collaborators\<close>

type_synonym ctx_id = nat  \<comment> \<open>identity of a context made by \<^verbatim>\<open>context.WithCancel\<close>\<close>
type_synonym wg_ref = nat  \<comment> \<open>address of a \<^verbatim>\<open>sync.WaitGroup\<close>\<close>

datatype client_option = ClientOption nat  \<comment> \<open>an opaque \<^verbatim>\<open>option.ClientOption\<close>\<close>

datatype pubsub_client = PubsubClient ctx_id string "client_option list"
  \<comment> \<open>the client \<^verbatim>\<open>pubsub.NewClient(ctx, projectID, opts...)\<close> returned\<close>

datatype pubsub_topic = PubsubTopic pubsub_client string
  \<comment> \<open>\<^verbatim>\<open>client.Topic(name)\<close>\<close>

subsection \<open>The struct\<close>

record InstanceLogger =
  errorTopicName :: "string option"
  instanceName :: "string option"
  projectID :: "string option"
  ctx :: "ctx_id option"
  cancelFunc :: "ctx_id option"
  client :: "pubsub_client option"
  clientOption :: "client_option option"
  waitGroup :: "wg_ref option"
  topic :: "pubsub_topic option"

subsection \<open>The world outside the struct\<close>

text \<open>
  Every call the code makes to a collaborator is recorded, in order, with what it was
  given and (for the calls whose result the code reads) what it answered.
  \<open>LogPrintf\<close> carries the formatted text of one \<^verbatim>\<open>log.Printf\<close> call, without the
  prefix (timestamp) the standard logger puts in front of it.
\<close>

datatype event =
    MetadataProjectID "go_error + string"     \<comment> \<open>\<^verbatim>\<open>c.ProjectID()\<close> and its result\<close>
  | MetadataInstanceName "go_error + string"  \<comment> \<open>\<^verbatim>\<open>c.InstanceName()\<close> and its result\<close>
  | PubsubNewClient ctx_id string "client_option list" "go_error option"
  | WaitGroupAdd wg_ref                       \<comment> \<open>\<^verbatim>\<open>waitGroup.Add(1)\<close>\<close>
  | WaitGroupDone wg_ref                      \<comment> \<open>\<^verbatim>\<open>waitGroup.Done()\<close>\<close>
  | DebugStack                                \<comment> \<open>\<^verbatim>\<open>debug.Stack()\<close>\<close>
  | TopicPublish pubsub_topic "ctx_id option" string  \<comment> \<open>\<^verbatim>\<open>topic.Publish(ctx, &Message{Data})\<close>\<close>
  | ResultGet "go_error + string"             \<comment> \<open>\<^verbatim>\<open>result.Get(ctx)\<close> and its result\<close>
  | LogPrintf string
  | TopicStop pubsub_topic                    \<comment> \<open>\<^verbatim>\<open>topic.Stop()\<close>\<close>
  | CancelFuncCall ctx_id                     \<comment> \<open>\<^verbatim>\<open>cancelFunc()\<close>\<close>
  | OsExit int

record world =
  wg_counter :: "wg_ref \<Rightarrow> nat"  \<comment> \<open>the counter of each \<^verbatim>\<open>sync.WaitGroup\<close>; never negative\<close>
  ctx_fresh :: ctx_id            \<comment> \<open>the next context \<^verbatim>\<open>context.WithCancel\<close> makes\<close>
  trace :: "event list"          \<comment> \<open>collaborator calls so far, oldest first\<close>

definition emit :: "event \<Rightarrow> world \<Rightarrow> world" where
  "emit e w = w\<lparr>trace := trace w @ [e]\<rparr>"

text \<open>What the metadata server and the pubsub service answer during one \<^verbatim>\<open>Init\<close>.\<close>

record env =
  metadata_ProjectID :: "go_error + string"
  metadata_InstanceName :: "go_error + string"
  pubsub_NewClient :: "string \<Rightarrow> client_option list \<Rightarrow> go_error option"

text \<open>
  \<^verbatim>\<open>sync.WaitGroup\<close>: \<^verbatim>\<open>Add(1)\<close> increments the counter; \<^verbatim>\<open>Done()\<close> decrements it and
  panics when that would make it negative.
\<close>

definition WaitGroup_Add :: "wg_ref \<Rightarrow> world \<Rightarrow> world" where
  "WaitGroup_Add g w = emit (WaitGroupAdd g) (w\<lparr>wg_counter := (wg_counter w)(g := Suc (wg_counter w g))\<rparr>)"

definition WaitGroup_Done :: "wg_ref \<Rightarrow> world \<Rightarrow> go_panic + world" where
  "WaitGroup_Done g w =
     (if wg_counter w g = 0 then Inl NegativeWaitGroupCounter
      else Inr (emit (WaitGroupDone g) (w\<lparr>wg_counter := (wg_counter w)(g := wg_counter w g - 1)\<rparr>)))"

definition log_Printf :: "string \<Rightarrow> world \<Rightarrow> world" where
  "log_Printf s w = emit (LogPrintf s) w"

section \<open>New\<close>

definition New :: "client_option option \<Rightarrow> wg_ref option \<Rightarrow> InstanceLogger" where
  "New clientOption' waitGroup' =
     \<lparr> errorTopicName = None, instanceName = None, projectID = None, ctx = None,
       cancelFunc = None, client = None, clientOption = clientOption',
       waitGroup = waitGroup', topic = None \<rparr>"

section \<open>Init\<close>

text \<open>
  \<^verbatim>\<open>Init\<close> is one function in the source; the model follows it block by block. A block
  gives the state it leaves and \<open>Some\<close> outcome when the function ends in it, \<open>None\<close>
  when control falls through to the next block.
\<close>

type_synonym state = "InstanceLogger \<times> world"

text \<open>Lines 51-57: the three assignments from the arguments.\<close>

fun Init_arguments :: "string \<Rightarrow> string option \<Rightarrow> string option \<Rightarrow> state \<Rightarrow> state" where
  "Init_arguments errorTopicName' optionalInstanceName optionalProjectID (il, w) =
     (let il1 = il\<lparr>errorTopicName := Some errorTopicName'\<rparr>;
          il2 = (case optionalInstanceName of Some n \<Rightarrow> il1\<lparr>instanceName := Some n\<rparr> | None \<Rightarrow> il1);
          il3 = (case optionalProjectID of Some p \<Rightarrow> il2\<lparr>projectID := Some p\<rparr> | None \<Rightarrow> il2)
      in (il3, w))"

text \<open>Lines 68-77: the project ID from the metadata server.\<close>

fun Init_projectID :: "env \<Rightarrow> string option \<Rightarrow> state \<Rightarrow> state \<times> go_error option outcome option" where
  "Init_projectID e optionalProjectID (il, w) =
     (case optionalProjectID of
        Some p \<Rightarrow> ((il, w), None)
      | None \<Rightarrow>
          (let w1 = emit (MetadataProjectID (metadata_ProjectID e)) w in
           case metadata_ProjectID e of
             Inl perr \<Rightarrow>
               (case net_Error_Timeout perr of
                  Inl p \<Rightarrow> ((il, w1), Some (Panicked p))
                | Inr timeout \<Rightarrow>
                    if \<not> timeout then ((il, w1), Some (Returned (Some perr)))
                    else ((il, w1), None))
           | Inr foundProjectID \<Rightarrow> ((il\<lparr>projectID := Some foundProjectID\<rparr>, w1), None)))"

text \<open>
  Lines 79-92: the context, the pubsub client and the topic. Both branches on
  \<^verbatim>\<open>il.clientOption\<close> evaluate \<^verbatim>\<open>*il.projectID\<close> as an argument of \<^verbatim>\<open>pubsub.NewClient\<close>.
\<close>

fun Init_client :: "env \<Rightarrow> string \<Rightarrow> state \<Rightarrow> state \<times> go_error option outcome option" where
  "Init_client e errorTopicName' (il, w) =
     (let c = ctx_fresh w;
          il1 = il\<lparr>ctx := Some c, cancelFunc := Some c\<rparr>;
          w1 = w\<lparr>ctx_fresh := Suc c\<rparr>
      in case projectID il1 of
           None \<Rightarrow> ((il1, w1), Some (Panicked NilPointerDereference))
         | Some pid \<Rightarrow>
             (let opts = (case clientOption il1 of Some opt \<Rightarrow> [opt] | None \<Rightarrow> []);
                  err = pubsub_NewClient e pid opts;
                  w2 = emit (PubsubNewClient c pid opts err) w1
              in case err of
                   Some err' \<Rightarrow> ((il1, w2), Some (Returned (Some err')))
                 | None \<Rightarrow>
                     (let cl = PubsubClient c pid opts;
                          il2 = il1\<lparr>client := Some cl\<rparr>;
                          il3 = il2\<lparr>topic := Some (PubsubTopic cl errorTopicName')\<rparr>
                      in ((il3, w2), None))))"

text \<open>Lines 94-103: the instance name from the metadata server.\<close>

fun Init_instanceName :: "env \<Rightarrow> string option \<Rightarrow> state \<Rightarrow> state \<times> go_error option outcome option" where
  "Init_instanceName e optionalInstanceName (il, w) =
     (case optionalInstanceName of
        Some n \<Rightarrow> ((il, w), None)
      | None \<Rightarrow>
          (let w1 = emit (MetadataInstanceName (metadata_InstanceName e)) w in
           case metadata_InstanceName e of
             Inl err \<Rightarrow>
               (case net_Error_Timeout err of
                  Inl p \<Rightarrow> ((il, w1), Some (Panicked p))
                | Inr timeout \<Rightarrow>
                    if \<not> timeout then ((il, w1), Some (Returned (Some err)))
                    else ((il, w1), None))
           | Inr foundInstanceName \<Rightarrow> ((il\<lparr>instanceName := Some foundInstanceName\<rparr>, w1), None)))"

definition Init :: "env \<Rightarrow> string \<Rightarrow> string option \<Rightarrow> string option \<Rightarrow> state \<Rightarrow> state \<times> go_error option outcome" where
  "Init e errorTopicName' optionalInstanceName optionalProjectID s =
     (let s1 = Init_arguments errorTopicName' optionalInstanceName optionalProjectID s in
      case Init_projectID e optionalProjectID s1 of
        (s2, Some out) \<Rightarrow> (s2, out)
      | (s2, None) \<Rightarrow>
          (case Init_client e errorTopicName' s2 of
             (s3, Some out) \<Rightarrow> (s3, out)
           | (s3, None) \<Rightarrow>
               (case Init_instanceName e optionalInstanceName s3 of
                  (s4, Some out) \<Rightarrow> (s4, out)
                | (s4, None) \<Rightarrow> (s4, Returned None))))"

section \<open>Error, Fatal, Stop\<close>

text \<open>
  The arguments of \<open>Error\<close> beyond the reported error are what the collaborators answer
  during the call: \<open>stack\<close> is the text \<^verbatim>\<open>debug.Stack()\<close> returns, \<open>pub\<close> is what
  \<^verbatim>\<open>result.Get\<close> returns for the publish (\<open>Inl\<close> the error, \<open>Inr\<close> the server ID).
\<close>

text \<open>Lines 122-136: the message, built with \<^verbatim>\<open>fmt.Sprintf\<close>.\<close>

definition errorMsg :: "go_error option \<Rightarrow> string \<Rightarrow> string option \<Rightarrow> string" where
  \<open>errorMsg err stack instanceName' =
     (case instanceName' of
        Some n \<Rightarrow> ''{"error": "'' @ fmt_v err @ ''", "trace":"'' @ stack @ ''","instanceName":"'' @ n @ ''"}''
      | None \<Rightarrow> ''{"error": "'' @ fmt_v err @ ''", "trace":"'' @ stack @ ''","instanceName": null}'')\<close>

text \<open>Lines 110-112.\<close>

definition Error_begin :: "InstanceLogger \<Rightarrow> world \<Rightarrow> world" where
  "Error_begin il w = (case waitGroup il of Some g \<Rightarrow> WaitGroup_Add g w | None \<Rightarrow> w)"

text \<open>Lines 116-119 and 148-151: \<^verbatim>\<open>Done()\<close> when there is a wait group, then return.\<close>

definition Error_end :: "InstanceLogger \<Rightarrow> world \<Rightarrow> state \<times> unit outcome" where
  "Error_end il w =
     (case waitGroup il of
        Some g \<Rightarrow>
          (case WaitGroup_Done g w of
             Inl p \<Rightarrow> ((il, w), Panicked p)
           | Inr w' \<Rightarrow> ((il, w'), Returned ()))
      | None \<Rightarrow> ((il, w), Returned ()))"

fun Error :: "go_error option \<Rightarrow> string \<Rightarrow> go_error + string \<Rightarrow> state \<Rightarrow> state \<times> unit outcome" where
  "Error err stack pub (il, w) =
     (let w1 = Error_begin il w in
      case topic il of
        None \<Rightarrow> Error_end il (log_Printf (''[ERROR] '' @ fmt_v err @ ''\<newline>'') w1)
      | Some t \<Rightarrow>
          (let w2 = emit DebugStack w1;
               msg = errorMsg err stack (instanceName il);
               w3 = emit (TopicPublish t (ctx il) msg) w2;
               w4 = emit (ResultGet pub) w3;
               w5 = (case pub of
                       Inl err' \<Rightarrow> log_Printf (''[ERROR] '' @ fmt_v (Some err') @ ''\<newline>'') w4
                     | Inr id' \<Rightarrow> log_Printf (''[REPORTED_ERR('' @ id' @ '')] '' @ msg @ ''\<newline>'') w4)
           in Error_end il w5))"

text \<open>\<^verbatim>\<open>Fatal\<close>: \<^verbatim>\<open>il.Error(err)\<close>, then \<^verbatim>\<open>os.Exit(1)\<close>.\<close>

definition Fatal :: "go_error option \<Rightarrow> string \<Rightarrow> go_error + string \<Rightarrow> state \<Rightarrow> state \<times> unit outcome" where
  "Fatal err stack pub s =
     (case Error err stack pub s of
        ((il, w), Returned u) \<Rightarrow> ((il, emit (OsExit 1) w), Exited 1)
      | (s', out) \<Rightarrow> (s', out))"

fun Stop :: "state \<Rightarrow> state \<times> unit outcome" where
  "Stop (il, w) =
     (let w1 = (case topic il of Some t \<Rightarrow> emit (TopicStop t) w | None \<Rightarrow> w);
          w2 = (case cancelFunc il of Some c \<Rightarrow> emit (CancelFuncCall c) w1 | None \<Rightarrow> w1)
      in ((il, w2), Returned ()))"

text \<open>
  A sequence of \<^verbatim>\<open>Error\<close> and \<^verbatim>\<open>Fatal\<close> calls made one after the other by the
  application. The sequence ends at the first call that does not return.
\<close>

datatype call =
    CallError "go_error option" string "go_error + string"
  | CallFatal "go_error option" string "go_error + string"

fun run_call :: "call \<Rightarrow> state \<Rightarrow> state \<times> unit outcome" where
  "run_call (CallError err stack pub) s = Error err stack pub s"
| "run_call (CallFatal err stack pub) s = Fatal err stack pub s"

fun run_calls :: "call list \<Rightarrow> state \<Rightarrow> state \<times> unit outcome" where
  "run_calls [] s = (s, Returned ())"
| "run_calls (c # cs) s =
     (case run_call c s of
        (s', Returned u) \<Rightarrow> run_calls cs s'
      | (s', out) \<Rightarrow> (s', out))"

section \<open>Notions used to state the properties\<close>

text \<open>The collaborator calls made between two worlds of one run.\<close>

definition events_since :: "world \<Rightarrow> world \<Rightarrow> event list" where
  "events_since w w' = drop (length (trace w)) (trace w')"

fun is_WaitGroup_event :: "event \<Rightarrow> bool" where
  "is_WaitGroup_event (WaitGroupAdd g) = True"
| "is_WaitGroup_event (WaitGroupDone g) = True"
| "is_WaitGroup_event e = False"

fun is_LogPrintf :: "event \<Rightarrow> bool" where
  "is_LogPrintf (LogPrintf s) = True"
| "is_LogPrintf e = False"

definition wg_Add_events :: "InstanceLogger \<Rightarrow> event list" where
  "wg_Add_events il = (case waitGroup il of Some g \<Rightarrow> [WaitGroupAdd g] | None \<Rightarrow> [])"

definition wg_Done_events :: "InstanceLogger \<Rightarrow> event list" where
  "wg_Done_events il = (case waitGroup il of Some g \<Rightarrow> [WaitGroupDone g] | None \<Rightarrow> [])"

fun is_TopicPublish :: "event \<Rightarrow> bool" where
  "is_TopicPublish (TopicPublish t c d) = True"
| "is_TopicPublish e = False"

subsection \<open>What has been released\<close>

text \<open>
  \<open>Stop\<close> hands the release to two collaborators, whose contracts are these. A
  \<^verbatim>\<open>pubsub.Topic\<close> is stopped by the first \<^verbatim>\<open>Stop()\<close> on it, and \<^verbatim>\<open>Stop()\<close> on a stopped
  topic returns at once. A context is cancelled by the first call of its cancel function,
  and (package \<^verbatim>\<open>context\<close>) "after the first call, subsequent calls to a CancelFunc do
  nothing". Neither call fails. So the topics stopped and the contexts cancelled in a
  world are those with at least one such call in its trace.
\<close>

fun stopped_by :: "event \<Rightarrow> pubsub_topic list" where
  "stopped_by (TopicStop t) = [t]"
| "stopped_by e = []"

fun cancelled_by :: "event \<Rightarrow> ctx_id list" where
  "cancelled_by (CancelFuncCall c) = [c]"
| "cancelled_by e = []"

definition stopped_topics :: "world \<Rightarrow> pubsub_topic set" where
  "stopped_topics w = set (concat (map stopped_by (trace w)))"

definition cancelled_contexts :: "world \<Rightarrow> ctx_id set" where
  "cancelled_contexts w = set (concat (map cancelled_by (trace w)))"

text \<open>\<open>Stop\<close> called \<open>n\<close> times in a row.\<close>

fun Stop_times :: "nat \<Rightarrow> state \<Rightarrow> state" where
  "Stop_times 0 s = s"
| "Stop_times (Suc n) s = Stop_times n (fst (Stop s))"

subsection \<open>The JSON text of an ErrorTopicMessage\<close>

text \<open>
  \<^verbatim>\<open>ErrorTopicMessage\<close> is declared in the source "for use in json unmarshalling" of the
  published message. The recogniser below follows the grammar of RFC 8259 for a text of
  that shape: an object with the members \<^verbatim>\<open>error\<close> and \<^verbatim>\<open>trace\<close>, both strings, and
  \<^verbatim>\<open>instanceName\<close>, a string or \<^verbatim>\<open>null\<close>, in the order and with the member names
  written as \<open>errorMsg\<close> writes them, white space allowed between the tokens.
\<close>

definition json_ws :: "char \<Rightarrow> bool" where
  "json_ws c = (c = CHR '' '' \<or> c = CHR 0x09 \<or> c = CHR 0x0A \<or> c = CHR 0x0D)"

definition json_hex :: "char \<Rightarrow> bool" where
  "json_hex c = (c \<in> set ''0123456789abcdefABCDEF'')"

text \<open>The characters that may follow a backslash, besides \<^verbatim>\<open>u\<close> and four hex digits.\<close>

definition json_escapable :: "char \<Rightarrow> bool" where
  "json_escapable c =
     (c \<in> set [CHR 0x22, CHR 0x5C, CHR ''/'', CHR ''b'', CHR ''f'', CHR ''n'', CHR ''r'', CHR ''t''])"

text \<open>
  The characters of a string after its opening quotation mark, up to the closing one;
  the result is the text after the closing quotation mark. Inside a string a quotation
  mark or a backslash must be escaped, and no control character (below \<^verbatim>\<open>0x20\<close>) may
  appear.
\<close>

fun json_chars :: "string \<Rightarrow> string option" where
  "json_chars [] = None"
| "json_chars (c # cs) =
     (if c = CHR 0x22 then Some cs
      else if c = CHR 0x5C then
        (case cs of
           [] \<Rightarrow> None
         | d # ds \<Rightarrow>
             if json_escapable d then json_chars ds
             else if d = CHR ''u'' \<and> 4 \<le> length ds \<and> list_all json_hex (take 4 ds)
               then json_chars (drop 4 ds)
             else None)
      else if (of_char c :: nat) < 0x20 then None
      else json_chars cs)"

text \<open>White space, then the given token.\<close>

definition json_token :: "string \<Rightarrow> string \<Rightarrow> string option" where
  "json_token tok s =
     (let s' = dropWhile json_ws s
      in if take (length tok) s' = tok then Some (drop (length tok) s') else None)"

definition json_string :: "string \<Rightarrow> string option" where
  "json_string s = json_token [CHR 0x22] s \<bind> json_chars"

definition json_string_or_null :: "string \<Rightarrow> string option" where
  "json_string_or_null s =
     (case json_token ''null'' s of Some r \<Rightarrow> Some r | None \<Rightarrow> json_string s)"

definition is_ErrorTopicMessage_json :: "string \<Rightarrow> bool" where
  \<open>is_ErrorTopicMessage_json s =
     (case json_token ''{'' s
           \<bind> json_token ''"error"'' \<bind> json_token '':'' \<bind> json_string
           \<bind> json_token '','' \<bind> json_token ''"trace"'' \<bind> json_token '':'' \<bind> json_string
           \<bind> json_token '','' \<bind> json_token ''"instanceName"'' \<bind> json_token '':''
           \<bind> json_string_or_null
           \<bind> json_token ''}'' of
        Some r \<Rightarrow> dropWhile json_ws r = []
      | None \<Rightarrow> False)\<close>

text \<open>A text that can stand between quotation marks as it is.\<close>

definition json_plain :: "string \<Rightarrow> bool" where
  "json_plain s =
     list_all (\<lambda>c. c \<noteq> CHR 0x22 \<and> c \<noteq> CHR 0x5C \<and> (0x20 :: nat) \<le> of_char c) s"

subsection \<open>Concrete runs\<close>

text \<open>A world in which nothing has happened yet.\<close>

definition world0 :: world where
  "world0 = \<lparr> wg_counter = (\<lambda>g. 0), ctx_fresh = 0, trace = [] \<rparr>"

text \<open>The metadata server answers both lookups; the pubsub client is created.\<close>

definition env_ok :: env where
  "env_ok = \<lparr> metadata_ProjectID = Inr ''proj-1'', metadata_InstanceName = Inr ''host-42'',
     pubsub_NewClient = (\<lambda>pid opts. None) \<rparr>"

text \<open>Both metadata lookups time out (off Google Compute Engine, say).\<close>

definition env_timeouts :: env where
  "env_timeouts = \<lparr> metadata_ProjectID = Inl (NetError ''i/o timeout'' True),
     metadata_InstanceName = Inl (NetError ''i/o timeout'' True),
     pubsub_NewClient = (\<lambda>pid opts. None) \<rparr>"

text \<open>
  The project-ID lookup fails with an error that is not a \<^verbatim>\<open>net.Error\<close>, as the
  metadata package's \<^verbatim>\<open>NotDefinedError\<close> (a string type) is.
\<close>

definition env_projectID_not_defined :: env where
  "env_projectID_not_defined = \<lparr> metadata_ProjectID = Inl (PlainError ''metadata: GCE metadata \"project/project-id\" not defined''),
     metadata_InstanceName = Inr ''host-42'',
     pubsub_NewClient = (\<lambda>pid opts. None) \<rparr>"

text \<open>The same for the instance-name lookup.\<close>

definition env_instanceName_not_defined :: env where
  "env_instanceName_not_defined = \<lparr> metadata_ProjectID = Inr ''proj-1'',
     metadata_InstanceName = Inl (PlainError ''metadata: GCE metadata \"instance/name\" not defined''),
     pubsub_NewClient = (\<lambda>pid opts. None) \<rparr>"

text \<open>The instance-name lookup fails with a \<^verbatim>\<open>net.Error\<close> that is not a timeout.\<close>

definition env_instanceName_refused :: env where
  "env_instanceName_refused = \<lparr> metadata_ProjectID = Inr ''proj-1'',
     metadata_InstanceName = Inl (NetError ''connection refused'' False),
     pubsub_NewClient = (\<lambda>pid opts. None) \<rparr>"

text \<open>
  \<open>logger1\<close> in \<open>world1\<close>: a logger made by \<^verbatim>\<open>New(nil, &wg)\<close> (the wait group at
  address 7) after \<^verbatim>\<open>Init("errors-topic", nil, &"proj-1")\<close> returned nil.
\<close>

definition logger1 :: InstanceLogger where
  "logger1 = fst (fst (Init env_ok ''errors-topic'' None (Some ''proj-1'') (New None (Some 7), world0)))"

definition world1 :: world where
  "world1 = snd (fst (Init env_ok ''errors-topic'' None (Some ''proj-1'') (New None (Some 7), world0)))"

definition topic1 :: pubsub_topic where
  "topic1 = PubsubTopic (PubsubClient 0 ''proj-1'' []) ''errors-topic''"

section \<open>Properties\<close>

subsection \<open>Auxiliary facts about Error, Fatal and Stop\<close>

lemmas Error_defs = Let_def Error_begin_def Error_end_def WaitGroup_Add_def WaitGroup_Done_def
  emit_def log_Printf_def

lemmas run_defs = Init_def New_def world0_def events_since_def errorMsg_def Error_defs

lemma events_since_append: "trace w' = trace w @ evs \<Longrightarrow> events_since w w' = evs"
  by (simp add: events_since_def)

text \<open>
  \<open>Error\<close> always returns: the \<^verbatim>\<open>Done()\<close> at its end follows its own \<^verbatim>\<open>Add(1)\<close>, so the
  counter is positive there. It leaves the struct and the counters as they were.
\<close>

lemma Error_returns:
  "\<exists>w'. Error err stack pub (il, w) = ((il, w'), Returned ()) \<and>
        wg_counter w' = wg_counter w \<and> ctx_fresh w' = ctx_fresh w"
  by (auto simp: Error_defs split: option.splits sum.splits)

text \<open>The calls \<open>Error\<close> makes, in order.\<close>

lemma Error_trace:
  "Error err stack pub (il, w) = ((il', w'), out) \<Longrightarrow>
   trace w' = trace w @ wg_Add_events il @
     (case topic il of
        None \<Rightarrow> [LogPrintf (''[ERROR] '' @ fmt_v err @ ''\<newline>'')]
      | Some t \<Rightarrow>
          [DebugStack, TopicPublish t (ctx il) (errorMsg err stack (instanceName il)), ResultGet pub,
           (case pub of
              Inl err' \<Rightarrow> LogPrintf (''[ERROR] '' @ error_string err' @ ''\<newline>'')
            | Inr id' \<Rightarrow> LogPrintf (''[REPORTED_ERR('' @ id' @ '')] '' @
                                     errorMsg err stack (instanceName il) @ ''\<newline>''))])
     @ wg_Done_events il"
  by (auto simp: Error_defs wg_Add_events_def wg_Done_events_def split: option.splits sum.splits)

lemma Fatal_exits:
  "Fatal err stack pub (il, w) = ((il', w'), out) \<Longrightarrow>
   il' = il \<and> wg_counter w' = wg_counter w \<and> out = Exited 1"
  using Error_returns[of err stack pub il w] by (auto simp: Fatal_def emit_def)

lemma run_call_wg_counter:
  "run_call c (il, w) = ((il', w'), out) \<Longrightarrow> il' = il \<and> wg_counter w' = wg_counter w"
proof (cases c)
  case (CallError err stack pub)
  assume "run_call c (il, w) = ((il', w'), out)"
  with CallError Error_returns[of err stack pub il w] show ?thesis by auto
next
  case (CallFatal err stack pub)
  assume "run_call c (il, w) = ((il', w'), out)"
  with CallFatal Fatal_exits[of err stack pub il w il' w' out] show ?thesis by simp
qed

lemma run_calls_wg_counter:
  "run_calls cs (il, w) = ((il', w'), out) \<Longrightarrow> il' = il \<and> wg_counter w' = wg_counter w"
proof (induction cs arbitrary: w)
  case Nil
  then show ?case by simp
next
  case (Cons c cs)
  obtain il1 w1 out1 where r: "run_call c (il, w) = ((il1, w1), out1)"
    by (metis surj_pair)
  from run_call_wg_counter[OF r] have k: "il1 = il" "wg_counter w1 = wg_counter w"
    by auto
  show ?case
  proof (cases out1)
    case (Returned u)
    with Cons.prems r have "run_calls cs (il1, w1) = ((il', w'), out)" by simp
    with Cons.IH[of w1] k show ?thesis by simp
  next
    case (Panicked p)
    with Cons.prems r k show ?thesis by auto
  next
    case (Exited n)
    with Cons.prems r k show ?thesis by auto
  qed
qed

lemma Stop_eq:
  "Stop (il, w) =
     ((il, w\<lparr>trace := trace w @ (case topic il of Some t \<Rightarrow> [TopicStop t] | None \<Rightarrow> []) @
                        (case cancelFunc il of Some c \<Rightarrow> [CancelFuncCall c] | None \<Rightarrow> [])\<rparr>),
      Returned ())"
  by (simp add: Let_def emit_def split: option.splits)

text \<open>What one call of \<open>Stop\<close>, and any number of calls after it, have released.\<close>

lemma Stop_released:
  "Stop (il, w) = ((il', w'), out) \<Longrightarrow>
   il' = il \<and> out = Returned () \<and>
   stopped_topics w' = stopped_topics w \<union> set_option (topic il) \<and>
   cancelled_contexts w' = cancelled_contexts w \<union> set_option (cancelFunc il) \<and>
   wg_counter w' = wg_counter w \<and> ctx_fresh w' = ctx_fresh w"
  unfolding Stop_eq
  by (auto simp: stopped_topics_def cancelled_contexts_def split: option.splits)

lemma Stop_times_released:
  "Stop_times (Suc n) (il, w) = (il', w') \<Longrightarrow>
   il' = il \<and>
   stopped_topics w' = stopped_topics w \<union> set_option (topic il) \<and>
   cancelled_contexts w' = cancelled_contexts w \<union> set_option (cancelFunc il) \<and>
   wg_counter w' = wg_counter w \<and> ctx_fresh w' = ctx_fresh w"
proof (induction n arbitrary: w)
  case 0
  obtain il1 w1 out1 where s: "Stop (il, w) = ((il1, w1), out1)"
    by (metis surj_pair)
  with 0 Stop_released[OF s] show ?case by simp
next
  case (Suc n)
  obtain il1 w1 out1 where s: "Stop (il, w) = ((il1, w1), out1)"
    by (metis surj_pair)
  from Stop_released[OF s] have k: "il1 = il"
      "stopped_topics w1 = stopped_topics w \<union> set_option (topic il)"
      "cancelled_contexts w1 = cancelled_contexts w \<union> set_option (cancelFunc il)"
      "wg_counter w1 = wg_counter w" "ctx_fresh w1 = ctx_fresh w"
    by auto
  from Suc.prems s k have "Stop_times (Suc n) (il, w1) = (il', w')"
    by simp
  from Suc.IH[OF this] k show ?case by auto
qed

text \<open>The successful \<open>Init\<close> that made \<open>logger1\<close>.\<close>

lemma Init_logger1:
  "Init env_ok ''errors-topic'' None (Some ''proj-1'') (New None (Some 7), world0) =
     ((logger1, world1), Returned None)"
  by (simp add: logger1_def world1_def run_defs env_ok_def)

lemma logger1_eq:
  "logger1 = \<lparr> errorTopicName = Some ''errors-topic'', instanceName = Some ''host-42'',
     projectID = Some ''proj-1'', ctx = Some 0, cancelFunc = Some 0,
     client = Some (PubsubClient 0 ''proj-1'' []), clientOption = None,
     waitGroup = Some 7, topic = Some topic1 \<rparr>"
  by (simp add: logger1_def topic1_def run_defs env_ok_def)

lemma world1_eq:
  "world1 = \<lparr> wg_counter = (\<lambda>g. 0), ctx_fresh = 1,
     trace = [PubsubNewClient 0 ''proj-1'' [] None, MetadataInstanceName (Inr ''host-42'')] \<rparr>"
  by (simp add: world1_def run_defs env_ok_def)

subsection \<open>Auxiliary facts about Init\<close>

lemma Init_arguments_facts:
  assumes "Init_arguments tn oin opid (il, w) = (il1, w1)"
  shows "w1 = w" "topic il1 = topic il"
    "projectID il1 = (case opid of Some p \<Rightarrow> Some p | None \<Rightarrow> projectID il)"
  using assms by (auto simp: Let_def split: option.splits)

lemma Init_projectID_facts:
  assumes "Init_projectID e opid (il, w) = ((il', w'), r)"
  shows "topic il' = topic il"
    "trace w' = trace w @ (case opid of Some p \<Rightarrow> [] | None \<Rightarrow> [MetadataProjectID (metadata_ProjectID e)])"
    "r = (case opid of
            Some p \<Rightarrow> None
          | None \<Rightarrow>
              (case metadata_ProjectID e of
                 Inl (NetError m t) \<Rightarrow> if t then None else Some (Returned (Some (NetError m t)))
               | Inl (PlainError m) \<Rightarrow> Some (Panicked InterfaceConversion)
               | Inr p \<Rightarrow> None))"
  using assms
  by (auto simp: Let_def emit_def split: option.splits sum.splits if_splits go_error.splits)

lemma Init_client_facts:
  assumes "Init_client e tn (il, w) = ((il', w'), r)"
  shows "trace w' = trace w @
      (case projectID il of
         None \<Rightarrow> []
       | Some pid \<Rightarrow>
           [PubsubNewClient (ctx_fresh w) pid (case clientOption il of Some opt \<Rightarrow> [opt] | None \<Rightarrow> [])
              (pubsub_NewClient e pid (case clientOption il of Some opt \<Rightarrow> [opt] | None \<Rightarrow> []))])"
    "r = (case projectID il of
            None \<Rightarrow> Some (Panicked NilPointerDereference)
          | Some pid \<Rightarrow>
              (case pubsub_NewClient e pid (case clientOption il of Some opt \<Rightarrow> [opt] | None \<Rightarrow> []) of
                 Some err \<Rightarrow> Some (Returned (Some err))
               | None \<Rightarrow> None))"
    "topic il' =
       (case r of
          None \<Rightarrow> Some (PubsubTopic (PubsubClient (ctx_fresh w) (the (projectID il))
                     (case clientOption il of Some opt \<Rightarrow> [opt] | None \<Rightarrow> [])) tn)
        | Some out \<Rightarrow> topic il)"
  using assms by (auto simp: Let_def emit_def split: option.splits sum.splits if_splits)

lemma Init_instanceName_facts:
  assumes "Init_instanceName e oin (il, w) = ((il', w'), r)"
  shows "topic il' = topic il"
    "trace w' = trace w @ (case oin of Some p \<Rightarrow> [] | None \<Rightarrow> [MetadataInstanceName (metadata_InstanceName e)])"
    "r = (case oin of
            Some p \<Rightarrow> None
          | None \<Rightarrow>
              (case metadata_InstanceName e of
                 Inl (NetError m t) \<Rightarrow> if t then None else Some (Returned (Some (NetError m t)))
               | Inl (PlainError m) \<Rightarrow> Some (Panicked InterfaceConversion)
               | Inr p \<Rightarrow> None))"
  using assms
  by (auto simp: Let_def emit_def split: option.splits sum.splits if_splits go_error.splits)

text \<open>Where \<open>Init\<close> ends: in one of its three blocks, or at its last line.\<close>

lemma Init_cases:
  assumes "Init e tn oin opid s = (s', out)"
  obtains
    (in_projectID) "Init_projectID e opid (Init_arguments tn oin opid s) = (s', Some out)"
  | (in_client) s2 where "Init_projectID e opid (Init_arguments tn oin opid s) = (s2, None)"
      "Init_client e tn s2 = (s', Some out)"
  | (in_instanceName) s2 s3 where "Init_projectID e opid (Init_arguments tn oin opid s) = (s2, None)"
      "Init_client e tn s2 = (s3, None)" "Init_instanceName e oin s3 = (s', Some out)"
  | (at_end) s2 s3 where "Init_projectID e opid (Init_arguments tn oin opid s) = (s2, None)"
      "Init_client e tn s2 = (s3, None)" "Init_instanceName e oin s3 = (s', None)"
      "out = Returned None"
  using assms unfolding Init_def Let_def
  by (auto split: prod.splits option.splits)

text \<open>
  The instance-name lookup comes after the topic is bound: whenever \<open>Init\<close> makes it,
  the topic is non-nil afterwards, however \<open>Init\<close> ends.
\<close>

lemma Init_instanceName_lookup_topic_bound:
  assumes i: "Init e tn oin opid (il, w) = ((il', w'), out)"
    and ev: "MetadataInstanceName r \<in> set (events_since w w')"
  shows "topic il' \<noteq> None"
proof -
  obtain il1 w1 where a: "Init_arguments tn oin opid (il, w) = (il1, w1)"
    by (metis surj_pair)
  note af = Init_arguments_facts(1)[OF a]
  from i show ?thesis
  proof (cases rule: Init_cases)
    case in_projectID
    from Init_projectID_facts(2)[OF in_projectID[unfolded a]] ev af show ?thesis
      by (auto simp: events_since_append split: option.splits)
  next
    case (in_client s2)
    obtain il2 w2 where s2: "s2 = (il2, w2)" by (cases s2)
    from Init_projectID_facts(2)[OF in_client(1)[unfolded a s2]]
      Init_client_facts(1)[OF in_client(2)[unfolded s2]] ev af show ?thesis
      by (auto simp: events_since_append split: option.splits)
  next
    case (in_instanceName s2 s3)
    obtain il2 w2 where s2: "s2 = (il2, w2)" by (cases s2)
    obtain il3 w3 where s3: "s3 = (il3, w3)" by (cases s3)
    from Init_client_facts(3)[OF in_instanceName(2)[unfolded s2 s3]]
      Init_instanceName_facts(1)[OF in_instanceName(3)[unfolded s3]] show ?thesis
      by simp
  next
    case (at_end s2 s3)
    obtain il2 w2 where s2: "s2 = (il2, w2)" by (cases s2)
    obtain il3 w3 where s3: "s3 = (il3, w3)" by (cases s3)
    from Init_client_facts(3)[OF at_end(2)[unfolded s2 s3]]
      Init_instanceName_facts(1)[OF at_end(3)[unfolded s3]] show ?thesis
      by simp
  qed
qed

text \<open>
  A timeout of the project-ID lookup on a logger without a project ID: the lookup's
  error is ignored, and \<^verbatim>\<open>*il.projectID\<close> then dereferences nil.
\<close>

lemma Init_timeout_without_projectID:
  "projectID il = None \<Longrightarrow> metadata_ProjectID e = Inl (NetError m True) \<Longrightarrow>
   snd (Init e tn oin None (il, w)) = Panicked NilPointerDereference"
  by (simp add: Init_def Let_def split: option.splits)

text \<open>
  A project-ID lookup that fails with a \<^verbatim>\<open>net.Error\<close> other than a timeout: \<open>Init\<close>
  returns that error, having called nothing but the lookup, and the topic is untouched.
\<close>

lemma Init_projectID_net_error:
  assumes "metadata_ProjectID e = Inl (NetError m False)"
    and "Init e tn oin None (il, w) = ((il', w'), out)"
  shows "out = Returned (Some (NetError m False))"
    "events_since w w' = [MetadataProjectID (Inl (NetError m False))]"
    "topic il' = topic il" "client il' = client il"
  using assms
  by (auto simp: Init_def Let_def emit_def events_since_def split: option.splits)

lemma Init_projectID_plain_error:
  assumes "metadata_ProjectID e = Inl (PlainError m)"
    and "Init e tn oin None (il, w) = ((il', w'), out)"
  shows "out = Panicked InterfaceConversion"
    "events_since w w' = [MetadataProjectID (Inl (PlainError m))]"
  using assms
  by (auto simp: Init_def Let_def emit_def events_since_def split: option.splits)

lemmas json_defs = is_ErrorTopicMessage_json_def json_token_def json_string_def
  json_string_or_null_def json_ws_def json_hex_def json_escapable_def

text \<open>The recogniser accepts the message of a report whose texts need no escaping.\<close>

lemma is_ErrorTopicMessage_json_example:
  \<open>is_ErrorTopicMessage_json
     (errorMsg (Some (PlainError ''disk full'')) ''main.main()'' (Some ''host-42'')) \<and>
   is_ErrorTopicMessage_json (errorMsg None ''main.main()'' None)\<close>
  by (simp add: json_defs errorMsg_def Let_def)

text \<open>
  More generally it accepts the message whenever the error text, the stack trace and
  the instance name contain no quotation mark, backslash or control character.
\<close>

lemma json_chars_plain: "json_plain s \<Longrightarrow> json_chars (s @ CHR 0x22 # r) = Some r"
  by (induction s) (auto simp: json_plain_def)

lemma errorMsg_json_when_plain:
  assumes "json_plain (fmt_v err)" "json_plain stack"
    and "\<And>n. instanceName' = Some n \<Longrightarrow> json_plain n"
  shows "is_ErrorTopicMessage_json (errorMsg err stack instanceName')"
  using assms
  by (cases instanceName') (simp_all add: errorMsg_def json_defs Let_def json_chars_plain)

subsection \<open>The wait group\<close>

text \<open>
  C1. On a logger with a wait group \<open>g\<close>, every call of \<open>Error\<close> returns; the first call
  it makes is \<^verbatim>\<open>g.Add(1)\<close>, the last is \<^verbatim>\<open>g.Done()\<close>, and it touches the wait group
  nowhere in between, whichever branch it takes (no topic, publish failed, publish
  succeeded); the counter is afterwards what it was before. Hence after any sequence of
  \<open>Error\<close> and \<open>Fatal\<close> calls every counter has its initial value.
\<close>

theorem Error_waitGroup_balanced:
  "(waitGroup il = Some g \<longrightarrow>
     (\<exists>w' evs. Error err stack pub (il, w) = ((il, w'), Returned ()) \<and>
        events_since w w' = [WaitGroupAdd g] @ evs @ [WaitGroupDone g] \<and>
        filter is_WaitGroup_event evs = [] \<and>
        wg_counter w' = wg_counter w)) \<and>
   wg_counter (snd (fst (run_calls cs (il, w)))) = wg_counter w"
proof (intro conjI impI)
  let ?mid = "case topic il of
        None \<Rightarrow> [LogPrintf (''[ERROR] '' @ fmt_v err @ ''\<newline>'')]
      | Some t \<Rightarrow>
          [DebugStack, TopicPublish t (ctx il) (errorMsg err stack (instanceName il)), ResultGet pub,
           (case pub of
              Inl err' \<Rightarrow> LogPrintf (''[ERROR] '' @ error_string err' @ ''\<newline>'')
            | Inr id' \<Rightarrow> LogPrintf (''[REPORTED_ERR('' @ id' @ '')] '' @
                                     errorMsg err stack (instanceName il) @ ''\<newline>''))]"
  assume g: "waitGroup il = Some g"
  obtain w' where e: "Error err stack pub (il, w) = ((il, w'), Returned ())"
      and c: "wg_counter w' = wg_counter w"
    using Error_returns[of err stack pub il w] by blast
  from Error_trace[OF e] g
  have "events_since w w' = [WaitGroupAdd g] @ ?mid @ [WaitGroupDone g]"
    by (simp add: events_since_append wg_Add_events_def wg_Done_events_def)
  moreover have "filter is_WaitGroup_event ?mid = []"
    by (simp split: option.splits sum.splits)
  ultimately show "\<exists>w' evs. Error err stack pub (il, w) = ((il, w'), Returned ()) \<and>
        events_since w w' = [WaitGroupAdd g] @ evs @ [WaitGroupDone g] \<and>
        filter is_WaitGroup_event evs = [] \<and>
        wg_counter w' = wg_counter w"
    using e c by blast
next
  show "wg_counter (snd (fst (run_calls cs (il, w)))) = wg_counter w"
    using run_calls_wg_counter[of cs il w] by (metis prod.collapse)
qed

theorem Error_waitGroup_balanced_witness:
  "waitGroup logger1 = Some 7 \<and>
   (\<exists>w' evs. Error (Some (PlainError ''disk full'')) ''main.main()'' (Inl (PlainError ''deadline exceeded''))
                (logger1, world1) = ((logger1, w'), Returned ()) \<and>
      events_since world1 w' = [WaitGroupAdd 7] @ evs @ [WaitGroupDone 7] \<and>
      filter is_WaitGroup_event evs = [] \<and>
      wg_counter w' = wg_counter world1) \<and>
   wg_counter (snd (fst (run_calls
      [CallError (Some (PlainError ''disk full'')) ''main.main()'' (Inr ''1''),
       CallFatal None ''main.main()'' (Inl (PlainError ''deadline exceeded''))]
      (logger1, world1)))) = wg_counter world1"
proof -
  have g: "waitGroup logger1 = Some 7"
    by (simp add: logger1_eq)
  from Error_waitGroup_balanced[of logger1 7 "Some (PlainError ''disk full'')" "''main.main()''"
      "Inl (PlainError ''deadline exceeded'')" world1
      "[CallError (Some (PlainError ''disk full'')) ''main.main()'' (Inr ''1''),
        CallFatal None ''main.main()'' (Inl (PlainError ''deadline exceeded''))]"] g
  show ?thesis by blast
qed

subsection \<open>Error\<close>

text \<open>
  C2. \<open>Error\<close> has no result and every call of it returns: it neither panics nor ends
  the process, whatever the logger, the reported error and the answer of the publish.
  When the publish fails, the calls it made (the wait group aside) are the one
  \<^verbatim>\<open>debug.Stack()\<close>, one \<^verbatim>\<open>Publish\<close>, one \<^verbatim>\<open>Get\<close> and one \<^verbatim>\<open>log.Printf\<close> of the
  publish error: the failure goes to the log only and the publish is not repeated.
\<close>

theorem Error_never_surfaces_error:
  "\<exists>w'. Error err stack pub (il, w) = ((il, w'), Returned ()) \<and>
     (\<forall>t perr. topic il = Some t \<and> pub = Inl perr \<longrightarrow>
        filter (\<lambda>e. \<not> is_WaitGroup_event e) (events_since w w') =
          [DebugStack, TopicPublish t (ctx il) (errorMsg err stack (instanceName il)),
           ResultGet (Inl perr), LogPrintf (''[ERROR] '' @ error_string perr @ ''\<newline>'')])"
proof -
  obtain w' where e: "Error err stack pub (il, w) = ((il, w'), Returned ())"
    using Error_returns[of err stack pub il w] by blast
  have "filter (\<lambda>e. \<not> is_WaitGroup_event e) (events_since w w') =
          [DebugStack, TopicPublish t (ctx il) (errorMsg err stack (instanceName il)),
           ResultGet (Inl perr), LogPrintf (''[ERROR] '' @ error_string perr @ ''\<newline>'')]"
    if "topic il = Some t" "pub = Inl perr" for t perr
    using Error_trace[OF e] that
    by (simp add: events_since_append wg_Add_events_def wg_Done_events_def split: option.splits)
  with e show ?thesis by blast
qed

text \<open>The logger \<open>logger1\<close>, a publish that fails with "deadline exceeded".\<close>

theorem Error_never_surfaces_error_witness:
  \<open>topic logger1 = Some topic1 \<and>
   (\<exists>w'. Error (Some (PlainError ''disk full'')) ''main.main()'' (Inl (PlainError ''deadline exceeded''))
           (logger1, world1) = ((logger1, w'), Returned ()) \<and>
      filter (\<lambda>e. \<not> is_WaitGroup_event e) (events_since world1 w') =
        [DebugStack,
         TopicPublish topic1 (Some 0) ''{"error": "disk full", "trace":"main.main()","instanceName":"host-42"}'',
         ResultGet (Inl (PlainError ''deadline exceeded'')),
         LogPrintf ''[ERROR] deadline exceeded\<newline>''])\<close>
proof -
  have t: "topic logger1 = Some topic1"
    by (simp add: logger1_eq)
  obtain w' where e: "Error (Some (PlainError ''disk full'')) ''main.main()''
        (Inl (PlainError ''deadline exceeded'')) (logger1, world1) = ((logger1, w'), Returned ())"
    and f: "\<forall>t perr. topic logger1 = Some t \<and> Inl (PlainError ''deadline exceeded'') = Inl perr \<longrightarrow>
        filter (\<lambda>e. \<not> is_WaitGroup_event e) (events_since world1 w') =
          [DebugStack,
           TopicPublish t (ctx logger1) (errorMsg (Some (PlainError ''disk full'')) ''main.main()'' (instanceName logger1)),
           ResultGet (Inl perr), LogPrintf (''[ERROR] '' @ error_string perr @ ''\<newline>'')]"
    using Error_never_surfaces_error[of "Some (PlainError ''disk full'')" "''main.main()''"
        "Inl (PlainError ''deadline exceeded'')" logger1 world1] by blast
  from f t have "filter (\<lambda>e. \<not> is_WaitGroup_event e) (events_since world1 w') =
          [DebugStack,
           TopicPublish topic1 (ctx logger1) (errorMsg (Some (PlainError ''disk full'')) ''main.main()'' (instanceName logger1)),
           ResultGet (Inl (PlainError ''deadline exceeded'')),
           LogPrintf (''[ERROR] '' @ error_string (PlainError ''deadline exceeded'') @ ''\<newline>'')]"
    by blast
  then have "filter (\<lambda>e. \<not> is_WaitGroup_event e) (events_since world1 w') =
        [DebugStack,
         TopicPublish topic1 (Some 0) (errorMsg (Some (PlainError ''disk full'')) ''main.main()'' (Some ''host-42'')),
         ResultGet (Inl (PlainError ''deadline exceeded'')),
         LogPrintf ''[ERROR] deadline exceeded\<newline>'']"
    by (simp add: logger1_eq)
  with t e show ?thesis
    by (auto simp: errorMsg_def)
qed

text \<open>
  C9, as the code has it. On a logger whose topic is nil (\<open>Init\<close> was not called, or
  did not get as far as the topic), \<open>Error\<close> returns after exactly one \<^verbatim>\<open>log.Printf\<close>,
  of \<^verbatim>\<open>[ERROR]\<close> and the reported error, between the wait group's \<^verbatim>\<open>Add(1)\<close> and
  \<^verbatim>\<open>Done()\<close> when there is a wait group: no \<^verbatim>\<open>debug.Stack()\<close>, so no message is built,
  and no \<^verbatim>\<open>Publish\<close> or \<^verbatim>\<open>Get\<close>. The entry has no tag of its own: any logger with a
  topic writes the same entry when its publish fails with an error of the same text.
\<close>

theorem Error_before_Init_local_only:
  "topic il = None \<Longrightarrow>
   \<exists>w'. Error err stack pub (il, w) = ((il, w'), Returned ()) \<and>
     events_since w w' =
       wg_Add_events il @ [LogPrintf (''[ERROR] '' @ fmt_v err @ ''\<newline>'')] @ wg_Done_events il \<and>
     (\<forall>il2 w2 t err2 stack2 perr. topic il2 = Some t \<and> error_string perr = fmt_v err \<longrightarrow>
        filter is_LogPrintf (events_since w2 (snd (fst (Error err2 stack2 (Inl perr) (il2, w2))))) =
        filter is_LogPrintf (events_since w w'))"
proof -
  assume t: "topic il = None"
  obtain w' where e: "Error err stack pub (il, w) = ((il, w'), Returned ())"
    using Error_returns[of err stack pub il w] by blast
  from Error_trace[OF e] t
  have a: "events_since w w' =
      wg_Add_events il @ [LogPrintf (''[ERROR] '' @ fmt_v err @ ''\<newline>'')] @ wg_Done_events il"
    by (simp add: events_since_append)
  have b: "filter is_LogPrintf (events_since w2 (snd (fst (Error err2 stack2 (Inl perr) (il2, w2))))) =
        filter is_LogPrintf (events_since w w')"
    if "topic il2 = Some t2" "error_string perr = fmt_v err" for il2 w2 t2 err2 stack2 perr
  proof -
    obtain w2' where e2: "Error err2 stack2 (Inl perr) (il2, w2) = ((il2, w2'), Returned ())"
      using Error_returns[of err2 stack2 "Inl perr" il2 w2] by blast
    from Error_trace[OF e2] that
    have "filter is_LogPrintf (events_since w2 w2') = [LogPrintf (''[ERROR] '' @ fmt_v err @ ''\<newline>'')]"
      by (simp add: events_since_append wg_Add_events_def wg_Done_events_def split: option.splits)
    moreover have "filter is_LogPrintf (events_since w w') = [LogPrintf (''[ERROR] '' @ fmt_v err @ ''\<newline>'')]"
      by (simp add: a wg_Add_events_def wg_Done_events_def split: option.splits)
    ultimately show ?thesis using e2 by simp
  qed
  from e a b show ?thesis by blast
qed

text \<open>
  A logger fresh from \<open>New\<close>, with a wait group, reports "disk full"; \<open>logger1\<close> writes
  the same entry when its publish fails with "disk full".
\<close>

theorem Error_before_Init_local_only_witness:
  "topic (New None (Some 7)) = None \<and>
   (\<exists>w'. Error (Some (PlainError ''disk full'')) ''main.main()'' (Inr ''1234'')
           (New None (Some 7), world0) = ((New None (Some 7), w'), Returned ()) \<and>
      events_since world0 w' =
        [WaitGroupAdd 7, LogPrintf ''[ERROR] disk full\<newline>'', WaitGroupDone 7] \<and>
      filter is_LogPrintf (events_since world1 (snd (fst
        (Error None ''main.main()'' (Inl (NetError ''disk full'' False)) (logger1, world1))))) =
      filter is_LogPrintf (events_since world0 w'))"
proof -
  have t: "topic (New None (Some 7)) = None"
    by (simp add: New_def)
  have t1: "topic logger1 = Some topic1" 
    by (simp add: logger1_eq)
  have s: "error_string (NetError ''disk full'' False) = fmt_v (Some (PlainError ''disk full''))"
    by simp
  from Error_before_Init_local_only[OF t, of "Some (PlainError ''disk full'')" "''main.main()''"
      "Inr ''1234''" world0]
  obtain w' where e: "Error (Some (PlainError ''disk full'')) ''main.main()'' (Inr ''1234'')
           (New None (Some 7), world0) = ((New None (Some 7), w'), Returned ())"
    and a: "events_since world0 w' = wg_Add_events (New None (Some 7)) @
       [LogPrintf (''[ERROR] '' @ fmt_v (Some (PlainError ''disk full'')) @ ''\<newline>'')] @
       wg_Done_events (New None (Some 7))"
    and b: "\<forall>il2 w2 t err2 stack2 perr. topic il2 = Some t \<and>
        error_string perr = fmt_v (Some (PlainError ''disk full'')) \<longrightarrow>
        filter is_LogPrintf (events_since w2 (snd (fst (Error err2 stack2 (Inl perr) (il2, w2))))) =
        filter is_LogPrintf (events_since world0 w')"
    by blast
  from a have a': "events_since world0 w' =
        [WaitGroupAdd 7, LogPrintf ''[ERROR] disk full\<newline>'', WaitGroupDone 7]"
    by (simp add: wg_Add_events_def wg_Done_events_def New_def)
  from b t1 s have "filter is_LogPrintf (events_since world1 (snd (fst
        (Error None ''main.main()'' (Inl (NetError ''disk full'' False)) (logger1, world1))))) =
      filter is_LogPrintf (events_since world0 w')"
    by blast
  with t e a' show ?thesis by blast
qed

text \<open>
  Reporting "connection reset" without a topic, and a publish on \<open>logger1\<close> that fails
  with "connection reset", leave the same entry in the log: nothing in it says that the
  logger was not initialised.
\<close>

theorem Error_not_initialized_tag_counterexample:
  "topic (New None (Some 7)) = None \<and>
   filter is_LogPrintf (events_since world0 (snd (fst
     (Error (Some (PlainError ''connection reset'')) ''main.main()'' (Inr ''1234'')
        (New None (Some 7), world0))))) =
     [LogPrintf ''[ERROR] connection reset\<newline>''] \<and>
   topic logger1 = Some topic1 \<and>
   filter is_LogPrintf (events_since world1 (snd (fst
     (Error None ''main.main()'' (Inl (PlainError ''connection reset'')) (logger1, world1))))) =
     [LogPrintf ''[ERROR] connection reset\<newline>'']"
  by (simp add: logger1_eq world1_eq New_def world0_def events_since_def Error_defs)

text \<open>
  C7, as the code has it. Every call of \<open>Error\<close> makes exactly one \<^verbatim>\<open>log.Printf\<close> call.
  Its text starts with one of two tags: \<^verbatim>\<open>[ERROR]\<close>, followed by the reported error when
  the topic is nil and by the publish error when the publish failed, or
  \<^verbatim>\<open>[REPORTED_ERR(id)]\<close>, followed by the published message, when the publish
  succeeded. (The text is one entry of the log; it spans several lines when an error
  text or the stack trace contains a newline.)
\<close>

theorem Error_one_log_entry:
  "\<exists>w'. Error err stack pub (il, w) = ((il, w'), Returned ()) \<and>
     filter is_LogPrintf (events_since w w') =
       [LogPrintf
         (case topic il of
            None \<Rightarrow> ''[ERROR] '' @ fmt_v err @ ''\<newline>''
          | Some t \<Rightarrow>
              (case pub of
                 Inl perr \<Rightarrow> ''[ERROR] '' @ error_string perr @ ''\<newline>''
               | Inr id' \<Rightarrow> ''[REPORTED_ERR('' @ id' @ '')] '' @
                              errorMsg err stack (instanceName il) @ ''\<newline>''))]"
proof -
  obtain w' where e: "Error err stack pub (il, w) = ((il, w'), Returned ())"
    using Error_returns[of err stack pub il w] by blast
  from Error_trace[OF e]
  have "filter is_LogPrintf (events_since w w') =
       [LogPrintf
         (case topic il of
            None \<Rightarrow> ''[ERROR] '' @ fmt_v err @ ''\<newline>''
          | Some t \<Rightarrow>
              (case pub of
                 Inl perr \<Rightarrow> ''[ERROR] '' @ error_string perr @ ''\<newline>''
               | Inr id' \<Rightarrow> ''[REPORTED_ERR('' @ id' @ '')] '' @
                              errorMsg err stack (instanceName il) @ ''\<newline>''))]"
    by (simp add: events_since_append wg_Add_events_def wg_Done_events_def
        split: option.splits sum.splits)
  with e show ?thesis by blast
qed

text \<open>The logger \<open>logger1\<close>, a publish that succeeds with the server ID 1234.\<close>

theorem Error_one_log_entry_witness:
  \<open>\<exists>w'. Error (Some (PlainError ''disk full'')) ''main.main()'' (Inr ''1234'') (logger1, world1) =
          ((logger1, w'), Returned ()) \<and>
     filter is_LogPrintf (events_since world1 w') =
       [LogPrintf ''[REPORTED_ERR(1234)] {"error": "disk full", "trace":"main.main()","instanceName":"host-42"}\<newline>'']\<close>
  using Error_one_log_entry[of "Some (PlainError ''disk full'')" "''main.main()''" "Inr ''1234''"
      logger1 world1]
  by (simp add: logger1_eq errorMsg_def)

text \<open>
  The tag does not tell "not initialised" from "publish failed": reporting "deadline
  exceeded" on a logger without topic, and reporting "disk full" on \<open>logger1\<close> when the
  publish fails with "deadline exceeded", write the same text to the log.
\<close>

theorem Error_same_tag_counterexample:
  "topic (New None None) = None \<and>
   filter is_LogPrintf (events_since world0 (snd (fst
     (Error (Some (PlainError ''deadline exceeded'')) ''main.main()'' (Inr ''1234'') (New None None, world0))))) =
     [LogPrintf ''[ERROR] deadline exceeded\<newline>''] \<and>
   topic logger1 = Some topic1 \<and>
   filter is_LogPrintf (events_since world1 (snd (fst
     (Error (Some (PlainError ''disk full'')) ''main.main()'' (Inl (PlainError ''deadline exceeded'')) (logger1, world1))))) =
     [LogPrintf ''[ERROR] deadline exceeded\<newline>'']"
  by (simp add: logger1_eq world1_eq New_def world0_def events_since_def Error_defs)

subsection \<open>The published message\<close>

text \<open>
  C8. The message \<open>Error\<close> publishes is built by \<^verbatim>\<open>fmt.Sprintf\<close>, which copies the error
  text, the stack trace and the instance name between the quotation marks as they are.
  Reporting the error of \<^verbatim>\<open>strconv.Atoi("abc")\<close> on \<open>logger1\<close> publishes, once, a text in
  which the quotation marks of the error text end the \<^verbatim>\<open>error\<close> string early: it is
  not the JSON text of an \<^verbatim>\<open>ErrorTopicMessage\<close>.
\<close>

theorem errorMsg_quote_not_escaped:
  \<open>filter is_TopicPublish (events_since world1 (snd (fst
     (Error (Some (PlainError ''strconv.Atoi: parsing "abc": invalid syntax'')) ''main.main()''
        (Inr ''1234'') (logger1, world1))))) =
     [TopicPublish topic1 (Some 0)
        ''{"error": "strconv.Atoi: parsing "abc": invalid syntax", "trace":"main.main()","instanceName":"host-42"}''] \<and>
   \<not> is_ErrorTopicMessage_json
        ''{"error": "strconv.Atoi: parsing "abc": invalid syntax", "trace":"main.main()","instanceName":"host-42"}''\<close>
  by (simp add: logger1_eq world1_eq events_since_def Error_defs errorMsg_def json_defs)

text \<open>
  The same with any stack trace of more than one line, as those of \<^verbatim>\<open>debug.Stack()\<close>
  are: the newline is copied into the \<^verbatim>\<open>trace\<close> string unescaped.
\<close>

lemma errorMsg_newline_not_escaped:
  \<open>\<not> is_ErrorTopicMessage_json
       (errorMsg (Some (PlainError ''disk full''))
          ''goroutine 1 [running]:\<newline>main.main()'' (Some ''host-42''))\<close>
  by (simp add: errorMsg_def json_defs)

subsection \<open>Init\<close>

text \<open>
  C3. Both metadata lookups time out and \<open>Init\<close> is given neither a project ID nor an
  instance name, on a logger fresh from \<open>New\<close>: the timeout of the project-ID lookup is
  ignored, \<^verbatim>\<open>il.projectID\<close> stays nil, and the \<^verbatim>\<open>*il.projectID\<close> in the call of
  \<^verbatim>\<open>pubsub.NewClient\<close> panics. \<open>Init\<close> does not return; the project-ID lookup is the
  only call it made.
\<close>

theorem Init_both_timeouts_panics:
  "projectID (New None None) = None \<and>
   snd (Init env_timeouts ''errors-topic'' None None (New None None, world0)) =
     Panicked NilPointerDereference \<and>
   trace (snd (fst (Init env_timeouts ''errors-topic'' None None (New None None, world0)))) =
     [MetadataProjectID (Inl (NetError ''i/o timeout'' True))]"
  by (simp add: run_defs env_timeouts_def)

text \<open>
  C4. The project-ID lookup fails with an error that is not a timeout and whose type
  does not implement \<^verbatim>\<open>net.Error\<close> (the metadata package's \<^verbatim>\<open>NotDefinedError\<close>), and
  \<open>Init\<close> is given no project ID: \<^verbatim>\<open>perr.(net.Error)\<close> panics, and \<open>Init\<close> does not
  return the error. (It made no call but the lookup; an error that implements
  \<^verbatim>\<open>net.Error\<close> and is no timeout is returned: \<open>Init_projectID_net_error\<close> above.)
\<close>

theorem Init_projectID_not_net_Error_panics:
  "\<not> implements_net_Error (PlainError ''metadata: GCE metadata \"project/project-id\" not defined'') \<and>
   snd (Init env_projectID_not_defined ''errors-topic'' None None (New None None, world0)) =
     Panicked InterfaceConversion \<and>
   trace (snd (fst (Init env_projectID_not_defined ''errors-topic'' None None (New None None, world0)))) =
     [MetadataProjectID (Inl (PlainError ''metadata: GCE metadata \"project/project-id\" not defined''))]"
  by (simp add: run_defs env_projectID_not_defined_def)

text \<open>
  C5, as the code has it. On a logger whose topic is nil, the topic is non-nil after
  \<open>Init\<close> exactly when \<open>Init\<close> created the pubsub client, that is when
  \<^verbatim>\<open>pubsub.NewClient\<close> was called and returned no error. So it is non-nil whenever \<open>Init\<close>
  returns nil; it stays nil when \<open>Init\<close> returns the error of the project-ID lookup,
  and when \<^verbatim>\<open>pubsub.NewClient\<close> fails, whose error \<open>Init\<close> then returns; the one error
  \<open>Init\<close> can return with the topic set is the error of the instance-name lookup,
  which comes after the topic is bound.
\<close>

theorem Init_topic_iff_client_created:
  assumes t: "topic il = None"
    and i: "Init e tn oin opid (il, w) = ((il', w'), out)"
  shows "(topic il' \<noteq> None \<longleftrightarrow>
            (\<exists>c pid opts. PubsubNewClient c pid opts None \<in> set (events_since w w'))) \<and>
         (out = Returned None \<longrightarrow> topic il' \<noteq> None) \<and>
         (\<forall>err. out = Returned (Some err) \<and> opid = None \<and> metadata_ProjectID e = Inl err \<longrightarrow>
                topic il' = None) \<and>
         (\<forall>err c pid opts. PubsubNewClient c pid opts (Some err) \<in> set (events_since w w') \<longrightarrow>
                out = Returned (Some err) \<and> topic il' = None) \<and>
         (\<forall>err. out = Returned (Some err) \<and> topic il' \<noteq> None \<longrightarrow>
                oin = None \<and> metadata_InstanceName e = Inl err)"
proof -
  obtain il1 w1 where a: "Init_arguments tn oin opid (il, w) = (il1, w1)"
    by (metis surj_pair)
  note af = Init_arguments_facts(1,2)[OF a]
  from i show ?thesis
  proof (cases rule: Init_cases)
    case in_projectID
    from Init_projectID_facts[OF in_projectID[unfolded a]] af t show ?thesis
      by (auto simp: events_since_append split: option.splits sum.splits go_error.splits if_splits)
  next
    case (in_client s2)
    obtain il2 w2 where s2: "s2 = (il2, w2)" by (cases s2)
    from Init_projectID_facts[OF in_client(1)[unfolded a s2]]
      Init_client_facts[OF in_client(2)[unfolded s2]] af t show ?thesis
      by (auto simp: events_since_append split: option.splits sum.splits go_error.splits if_splits)
  next
    case (in_instanceName s2 s3)
    obtain il2 w2 where s2: "s2 = (il2, w2)" by (cases s2)
    obtain il3 w3 where s3: "s3 = (il3, w3)" by (cases s3)
    from Init_projectID_facts[OF in_instanceName(1)[unfolded a s2]]
      Init_client_facts[OF in_instanceName(2)[unfolded s2 s3]]
      Init_instanceName_facts[OF in_instanceName(3)[unfolded s3]] af t show ?thesis
      by (auto simp: events_since_append split: option.splits sum.splits go_error.splits if_splits)
  next
    case (at_end s2 s3)
    obtain il2 w2 where s2: "s2 = (il2, w2)" by (cases s2)
    obtain il3 w3 where s3: "s3 = (il3, w3)" by (cases s3)
    from Init_projectID_facts[OF at_end(1)[unfolded a s2]]
      Init_client_facts[OF at_end(2)[unfolded s2 s3]]
      Init_instanceName_facts[OF at_end(3)[unfolded s3]] af t at_end(4) show ?thesis
      by (auto simp: events_since_append split: option.splits sum.splits go_error.splits if_splits)
  qed
qed

text \<open>The \<open>Init\<close> that made \<open>logger1\<close>.\<close>

theorem Init_topic_iff_client_created_witness:
  "topic (New None (Some 7)) = None \<and>
   Init env_ok ''errors-topic'' None (Some ''proj-1'') (New None (Some 7), world0) =
     ((logger1, world1), Returned None) \<and>
   topic logger1 \<noteq> None \<and>
   (\<exists>c pid opts. PubsubNewClient c pid opts None \<in> set (events_since world0 world1))"
proof -
  have t: "topic (New None (Some 7)) = None"
    by (simp add: New_def)
  from Init_topic_iff_client_created[OF t Init_logger1] t Init_logger1
  show ?thesis by blast
qed

text \<open>
  An \<open>Init\<close> that returns an error and leaves the topic set: the project ID is given,
  the client is created, and the instance-name lookup is refused.
\<close>

theorem Init_error_with_topic_counterexample:
  "topic (New None None) = None \<and>
   snd (Init env_instanceName_refused ''errors-topic'' None (Some ''proj-1'') (New None None, world0)) =
     Returned (Some (NetError ''connection refused'' False)) \<and>
   topic (fst (fst (Init env_instanceName_refused ''errors-topic'' None (Some ''proj-1'')
     (New None None, world0)))) = Some topic1"
  by (simp add: run_defs env_instanceName_refused_def topic1_def)

text \<open>
  C10. When \<open>Init\<close> is given no project ID and the project-ID lookup answers with an
  error whose type does not implement \<^verbatim>\<open>net.Error\<close>, \<open>Init\<close> panics in the type
  assertion of line 71 instead of returning the error. When \<open>Init\<close> is given no instance
  name, gets as far as the instance-name lookup (a project ID \<open>p\<close> was given, found or,
  after a timeout, already there, and the client for \<open>p\<close> was created) and that lookup
  answers with such an error, \<open>Init\<close> panics in the type assertion of line 97. So when
  \<open>Init\<close> returns, an error of the project-ID lookup it made implements \<^verbatim>\<open>net.Error\<close>,
  and so does an error of the instance-name lookup when it returns nil.
\<close>

theorem Init_panics_on_non_net_Error:
  "(opid = None \<and> metadata_ProjectID e = Inl perr \<and> \<not> implements_net_Error perr \<longrightarrow>
      snd (Init e tn oin opid (il, w)) = Panicked InterfaceConversion) \<and>
   (oin = None \<and> metadata_InstanceName e = Inl ierr \<and> \<not> implements_net_Error ierr \<and>
    (opid = Some p \<or>
     opid = None \<and> (metadata_ProjectID e = Inr p \<or>
                    (\<exists>m. metadata_ProjectID e = Inl (NetError m True)) \<and> projectID il = Some p)) \<and>
    pubsub_NewClient e p (case clientOption il of Some opt \<Rightarrow> [opt] | None \<Rightarrow> []) = None \<longrightarrow>
      snd (Init e tn oin opid (il, w)) = Panicked InterfaceConversion) \<and>
   (\<forall>r. snd (Init e tn oin opid (il, w)) = Returned r \<longrightarrow>
      (opid = None \<longrightarrow> (\<forall>err. metadata_ProjectID e = Inl err \<longrightarrow> implements_net_Error err)) \<and>
      (oin = None \<and> r = None \<longrightarrow> (\<forall>err. metadata_InstanceName e = Inl err \<longrightarrow> implements_net_Error err)))"
proof (intro conjI impI allI)
  assume "opid = None \<and> metadata_ProjectID e = Inl perr \<and> \<not> implements_net_Error perr"
  then show "snd (Init e tn oin opid (il, w)) = Panicked InterfaceConversion"
    by (cases perr) (auto simp: Init_def Let_def split: option.splits)
next
  assume a: "oin = None \<and> metadata_InstanceName e = Inl ierr \<and> \<not> implements_net_Error ierr \<and>
    (opid = Some p \<or>
     opid = None \<and> (metadata_ProjectID e = Inr p \<or>
                    (\<exists>m. metadata_ProjectID e = Inl (NetError m True)) \<and> projectID il = Some p)) \<and>
    pubsub_NewClient e p (case clientOption il of Some opt \<Rightarrow> [opt] | None \<Rightarrow> []) = None"
  then obtain m where "ierr = PlainError m"
    by (cases ierr) auto
  with a show "snd (Init e tn oin opid (il, w)) = Panicked InterfaceConversion"
    by (auto simp: Init_def Let_def split: option.splits)
next
  fix r err
  assume r: "snd (Init e tn oin opid (il, w)) = Returned r" and o: "opid = None"
    and p: "metadata_ProjectID e = Inl err"
  show "implements_net_Error err"
  proof (cases err)
    case (NetError m t)
    then show ?thesis by simp
  next
    case (PlainError m)
    with r o p show ?thesis
      by (auto simp: Init_def Let_def split: option.splits)
  qed
next
  fix r err
  assume r: "snd (Init e tn oin opid (il, w)) = Returned r" and o: "oin = None \<and> r = None"
    and p: "metadata_InstanceName e = Inl err"
  show "implements_net_Error err"
  proof (cases err)
    case (NetError m t)
    then show ?thesis by simp
  next
    case (PlainError m)
    with r o p show ?thesis
      by (auto simp: Init_def Let_def split: option.splits sum.splits go_error.splits if_splits)
  qed
qed

text \<open>
  A \<^verbatim>\<open>NotDefinedError\<close> from the project-ID lookup; one from the instance-name lookup
  after the project ID was found and the client created; and an \<open>Init\<close> that returns
  nil after the instance-name lookup timed out.
\<close>

theorem Init_panics_on_non_net_Error_witness:
  "(metadata_ProjectID env_projectID_not_defined =
      Inl (PlainError ''metadata: GCE metadata \"project/project-id\" not defined'') \<and>
    \<not> implements_net_Error (PlainError ''metadata: GCE metadata \"project/project-id\" not defined'') \<and>
    snd (Init env_projectID_not_defined ''errors-topic'' (Some ''host-42'') None (New None (Some 7), world0)) =
      Panicked InterfaceConversion) \<and>
   (metadata_InstanceName env_instanceName_not_defined =
      Inl (PlainError ''metadata: GCE metadata \"instance/name\" not defined'') \<and>
    \<not> implements_net_Error (PlainError ''metadata: GCE metadata \"instance/name\" not defined'') \<and>
    metadata_ProjectID env_instanceName_not_defined = Inr ''proj-1'' \<and>
    pubsub_NewClient env_instanceName_not_defined ''proj-1'' [] = None \<and>
    snd (Init env_instanceName_not_defined ''errors-topic'' None None (New None None, world0)) =
      Panicked InterfaceConversion) \<and>
   (snd (Init env_timeouts ''errors-topic'' None (Some ''proj-1'') (New None None, world0)) = Returned None \<and>
    metadata_InstanceName env_timeouts = Inl (NetError ''i/o timeout'' True) \<and>
    implements_net_Error (NetError ''i/o timeout'' True))"
proof -
  let ?p = "PlainError ''metadata: GCE metadata \"project/project-id\" not defined''"
  let ?i = "PlainError ''metadata: GCE metadata \"instance/name\" not defined''"
  have p: "metadata_ProjectID env_projectID_not_defined = Inl ?p" "\<not> implements_net_Error ?p"
    by (simp_all add: env_projectID_not_defined_def)
  have i: "metadata_InstanceName env_instanceName_not_defined = Inl ?i" "\<not> implements_net_Error ?i"
      "metadata_ProjectID env_instanceName_not_defined = Inr ''proj-1''"
      "pubsub_NewClient env_instanceName_not_defined ''proj-1'' [] = None"
      "clientOption (New None None) = None"
    by (simp_all add: env_instanceName_not_defined_def New_def)
  have t: "snd (Init env_timeouts ''errors-topic'' None (Some ''proj-1'') (New None None, world0)) = Returned None"
      "metadata_InstanceName env_timeouts = Inl (NetError ''i/o timeout'' True)"
    by (simp_all add: run_defs env_timeouts_def)
  from Init_panics_on_non_net_Error[of None env_projectID_not_defined ?p "''errors-topic''"
      "Some ''host-42''" "New None (Some 7)" world0] p
  have 1: "snd (Init env_projectID_not_defined ''errors-topic'' (Some ''host-42'') None (New None (Some 7), world0)) =
      Panicked InterfaceConversion"
    by blast
  from Init_panics_on_non_net_Error[of None env_instanceName_not_defined _ "''errors-topic''"
      None "New None None" world0 ?i "''proj-1''"] i
  have 2: "snd (Init env_instanceName_not_defined ''errors-topic'' None None (New None None, world0)) =
      Panicked InterfaceConversion"
    by simp
  from Init_panics_on_non_net_Error[of "Some ''proj-1''" env_timeouts _ "''errors-topic''"
      None "New None None" world0] t
  have 3: "implements_net_Error (NetError ''i/o timeout'' True)"
    by blast
  from p i t 1 2 3 show ?thesis by blast
qed

text \<open>
  The same in terms of the calls made: whichever lookup \<open>Init\<close> makes, an answer that
  is an error not implementing \<^verbatim>\<open>net.Error\<close> ends it in the panic.
\<close>

lemma Init_failed_lookup_panics:
  assumes i: "Init e tn oin opid (il, w) = ((il', w'), out)"
    and ev: "MetadataProjectID (Inl err) \<in> set (events_since w w') \<or>
             MetadataInstanceName (Inl err) \<in> set (events_since w w')"
    and n: "\<not> implements_net_Error err"
  shows "out = Panicked InterfaceConversion"
proof -
  obtain m where m: "err = PlainError m"
    using n by (cases err) auto
  obtain il1 w1 where a: "Init_arguments tn oin opid (il, w) = (il1, w1)"
    by (metis surj_pair)
  note af = Init_arguments_facts(1)[OF a]
  from i show ?thesis
  proof (cases rule: Init_cases)
    case in_projectID
    from Init_projectID_facts(2,3)[OF in_projectID[unfolded a]] ev m af show ?thesis
      by (auto simp: events_since_append split: option.splits sum.splits go_error.splits if_splits)
  next
    case (in_client s2)
    obtain il2 w2 where s2: "s2 = (il2, w2)" by (cases s2)
    from Init_projectID_facts(2,3)[OF in_client(1)[unfolded a s2]]
      Init_client_facts(1,2)[OF in_client(2)[unfolded s2]] ev m af show ?thesis
      by (auto simp: events_since_append split: option.splits sum.splits go_error.splits if_splits)
  next
    case (in_instanceName s2 s3)
    obtain il2 w2 where s2: "s2 = (il2, w2)" by (cases s2)
    obtain il3 w3 where s3: "s3 = (il3, w3)" by (cases s3)
    from Init_projectID_facts(2,3)[OF in_instanceName(1)[unfolded a s2]]
      Init_client_facts(1,2)[OF in_instanceName(2)[unfolded s2 s3]]
      Init_instanceName_facts(2,3)[OF in_instanceName(3)[unfolded s3]] ev m af show ?thesis
      by (auto simp: events_since_append split: option.splits sum.splits go_error.splits if_splits)
  next
    case (at_end s2 s3)
    obtain il2 w2 where s2: "s2 = (il2, w2)" by (cases s2)
    obtain il3 w3 where s3: "s3 = (il3, w3)" by (cases s3)
    from Init_projectID_facts(2,3)[OF at_end(1)[unfolded a s2]]
      Init_client_facts(1,2)[OF at_end(2)[unfolded s2 s3]]
      Init_instanceName_facts(2,3)[OF at_end(3)[unfolded s3]] ev m af show ?thesis
      by (auto simp: events_since_append split: option.splits sum.splits go_error.splits if_splits)
  qed
qed

subsection \<open>Stop\<close>

text \<open>
  C6. \<open>Stop\<close> can be called again. The first and the second call both return and
  leave the struct as it is. The first call stops the topic and cancels the context, when
  there is one. The second call makes the same calls again, as the code does not clear
  \<^verbatim>\<open>il.topic\<close> or \<^verbatim>\<open>il.cancelFunc\<close>; but it stops no topic and cancels no context that
  was not stopped or cancelled already, and changes nothing else in the world: every call
  it makes is a \<^verbatim>\<open>Stop()\<close> of a stopped topic or a call of the cancel function of a
  cancelled context, which do nothing. The same holds after any number of further calls.
\<close>

theorem Stop_again_no_op:
  "\<exists>w1 w2. Stop (il, w) = ((il, w1), Returned ()) \<and> Stop (il, w1) = ((il, w2), Returned ()) \<and>
     events_since w w1 = (case topic il of Some t \<Rightarrow> [TopicStop t] | None \<Rightarrow> []) @
                         (case cancelFunc il of Some c \<Rightarrow> [CancelFuncCall c] | None \<Rightarrow> []) \<and>
     stopped_topics w1 = stopped_topics w \<union> set_option (topic il) \<and>
     cancelled_contexts w1 = cancelled_contexts w \<union> set_option (cancelFunc il) \<and>
     events_since w1 w2 = events_since w w1 \<and>
     stopped_topics w2 = stopped_topics w1 \<and> cancelled_contexts w2 = cancelled_contexts w1 \<and>
     wg_counter w2 = wg_counter w1 \<and> ctx_fresh w2 = ctx_fresh w1 \<and>
     set (events_since w1 w2) \<subseteq> TopicStop ` stopped_topics w1 \<union> CancelFuncCall ` cancelled_contexts w1 \<and>
     (\<forall>n. fst (Stop_times (Suc n) (il, w1)) = il \<and>
          stopped_topics (snd (Stop_times (Suc n) (il, w1))) = stopped_topics w1 \<and>
          cancelled_contexts (snd (Stop_times (Suc n) (il, w1))) = cancelled_contexts w1)"
proof -
  obtain w1 where s1: "Stop (il, w) = ((il, w1), Returned ())"
    using Stop_eq[of il w] by blast
  obtain w2 where s2: "Stop (il, w1) = ((il, w2), Returned ())"
    using Stop_eq[of il w1] by blast
  note r1 = Stop_released[OF s1] and r2 = Stop_released[OF s2]
  have e: "events_since w w1 = (case topic il of Some t \<Rightarrow> [TopicStop t] | None \<Rightarrow> []) @
                         (case cancelFunc il of Some c \<Rightarrow> [CancelFuncCall c] | None \<Rightarrow> [])"
      "events_since w1 w2 = events_since w w1"
    using s1 s2 unfolding Stop_eq by (auto simp: events_since_def)
  have a: "stopped_topics w2 = stopped_topics w1" "cancelled_contexts w2 = cancelled_contexts w1"
    using r1 r2 by auto
  have b: "wg_counter w2 = wg_counter w1" "ctx_fresh w2 = ctx_fresh w1"
    using r2 by auto
  have c: "set (events_since w1 w2) \<subseteq> TopicStop ` stopped_topics w1 \<union> CancelFuncCall ` cancelled_contexts w1"
    using s1 s2 unfolding Stop_eq
    by (auto simp: events_since_def stopped_topics_def cancelled_contexts_def split: option.splits)
  have d: "fst (Stop_times (Suc n) (il, w1)) = il \<and>
          stopped_topics (snd (Stop_times (Suc n) (il, w1))) = stopped_topics w1 \<and>
          cancelled_contexts (snd (Stop_times (Suc n) (il, w1))) = cancelled_contexts w1" for n
  proof -
    obtain il' w' where t: "Stop_times (Suc n) (il, w1) = (il', w')"
      by (metis surj_pair)
    from Stop_times_released[OF t] r1 t show ?thesis by auto
  qed
  from r1 have f: "stopped_topics w1 = stopped_topics w \<union> set_option (topic il)"
      "cancelled_contexts w1 = cancelled_contexts w \<union> set_option (cancelFunc il)"
    by auto
  from s1 s2 e f a b c d show ?thesis by blast
qed

text \<open>
  \<open>logger1\<close>: the first \<open>Stop\<close> stops its topic and cancels its context; after the
  second, and after three more, the same topic and context are released and no other.
\<close>

theorem Stop_again_no_op_witness:
  "\<exists>w1 w2. Stop (logger1, world1) = ((logger1, w1), Returned ()) \<and>
     Stop (logger1, w1) = ((logger1, w2), Returned ()) \<and>
     events_since world1 w1 = [TopicStop topic1, CancelFuncCall 0] \<and>
     stopped_topics w1 = {topic1} \<and> cancelled_contexts w1 = {0} \<and>
     stopped_topics w2 = {topic1} \<and> cancelled_contexts w2 = {0} \<and>
     stopped_topics (snd (Stop_times 3 (logger1, w1))) = {topic1} \<and>
     cancelled_contexts (snd (Stop_times 3 (logger1, w1))) = {0}"
proof -
  obtain w1 w2 where s1: "Stop (logger1, world1) = ((logger1, w1), Returned ())"
    and s2: "Stop (logger1, w1) = ((logger1, w2), Returned ())"
    and a: "stopped_topics w2 = stopped_topics w1" "cancelled_contexts w2 = cancelled_contexts w1"
    and d: "\<forall>n. fst (Stop_times (Suc n) (logger1, w1)) = logger1 \<and>
          stopped_topics (snd (Stop_times (Suc n) (logger1, w1))) = stopped_topics w1 \<and>
          cancelled_contexts (snd (Stop_times (Suc n) (logger1, w1))) = cancelled_contexts w1"
    using Stop_again_no_op[of logger1 world1] by blast
  from s1 have w1: "w1 = world1\<lparr>trace := trace world1 @ [TopicStop topic1, CancelFuncCall 0]\<rparr>"
    unfolding Stop_eq by (simp add: logger1_eq)
  have e: "events_since world1 w1 = [TopicStop topic1, CancelFuncCall 0]"
    by (simp add: w1 events_since_def)
  have f: "stopped_topics w1 = {topic1}" "cancelled_contexts w1 = {0}"
    by (simp_all add: w1 world1_eq stopped_topics_def cancelled_contexts_def)
  from d have g: "stopped_topics (snd (Stop_times (Suc 2) (logger1, w1))) = stopped_topics w1"
      "cancelled_contexts (snd (Stop_times (Suc 2) (logger1, w1))) = cancelled_contexts w1"
    by blast+
  have h: "Suc 2 = 3" by simp
  from s1 s2 a e f g[unfolded h] show ?thesis by auto
qed

end
